theory Spec2Isabelle
  imports Main
begin

section \<open>Phone number formatting (twilio_directory/call.py)\<close>

text \<open>
  A Python \<open>str\<close> is a sequence of code points. A \<^typ>\<open>char\<close> stands for a code point
  below 256, so \<open>length\<close> counts what Python's \<open>len\<close> counts. In that range
  \<open>str.isdigit\<close> holds for the ten decimal digits and for the superscript digits
  U+00B2, U+00B3 and U+00B9.
\<close>

definition decimal_digit :: "char \<Rightarrow> bool" where
  "decimal_digit c = (c \<in> set ''0123456789'')"

definition isdigit :: "char \<Rightarrow> bool" where
  "isdigit c = (decimal_digit c \<or> c = CHR 0xB2 \<or> c = CHR 0xB3 \<or> c = CHR 0xB9)"

text \<open>\<open>s.startswith(p)\<close>\<close>

definition startswith :: "string \<Rightarrow> string \<Rightarrow> bool" where
  "startswith s p = (take (length p) s = p)"

text \<open>
  \<open>TwilioCallManager._format_phone_number\<close>. The method does not use \<open>self\<close>.
  \<open>cleaned[1:]\<close> is \<open>drop 1 cleaned\<close>; no operation of the body can raise on a \<open>str\<close>.
\<close>

definition format_phone_number :: "string \<Rightarrow> string" where
  "format_phone_number phone =
     (let cleaned = filter (\<lambda>c. isdigit c \<or> c = CHR ''+'') phone in
      if \<not> startswith cleaned ''+'' then
        if startswith cleaned ''91'' \<and> length cleaned = 12 then ''+'' @ cleaned
        else if startswith cleaned ''03'' \<and> length cleaned = 11 then ''+92'' @ drop 1 cleaned
        else if length cleaned = 10 then ''+91'' @ cleaned
        else if length cleaned = 11 \<and> startswith cleaned ''0'' then ''+92'' @ drop 1 cleaned
        else ''+'' @ cleaned
      else cleaned)"

subsection \<open>The normalizer as the specification words it\<close>

text \<open>
  The seven ordered rules of the specification, written from its words and not from the
  code: ``\<open>n\<close> digits'' is a string of exactly \<open>n\<close> decimal digits.
\<close>

definition n_digits :: "nat \<Rightarrow> string \<Rightarrow> bool" where
  "n_digits n s = (length s = n \<and> list_all decimal_digit s)"

definition normalize_spec :: "string \<Rightarrow> string" where
  "normalize_spec s =
     (let t = filter (\<lambda>c. decimal_digit c \<or> c = CHR ''+'') s in
      if startswith t ''+'' then t
      else if n_digits 12 t \<and> startswith t ''91'' then ''+'' @ t
      else if n_digits 11 t \<and> startswith t ''03'' then ''+92'' @ tl t
      else if n_digits 10 t then ''+91'' @ t
      else if n_digits 11 t \<and> startswith t ''0'' then ''+92'' @ tl t
      else ''+'' @ t)"

text \<open>An input of digits and spaces with an optional leading plus.\<close>

definition phone_input :: "string \<Rightarrow> bool" where
  "phone_input s =
     list_all (\<lambda>c. decimal_digit c \<or> c = CHR '' '') (if startswith s ''+'' then drop 1 s else s)"


section \<open>Webhook dispatcher (twilio_directory/webhook.py)\<close>

subsection \<open>Data\<close>

text \<open>One element of \<open>conversation_history\<close>: the dict appended by \<open>handle_gather\<close>.\<close>

record turn =
  speaker :: string
  message :: string
  confidence :: string
  timestamp :: string

text \<open>
  The dict stored under a lead in \<open>conversation_states\<close>. \<open>call_sid\<close> is
  \<open>request.form.get('CallSid')\<close>, which is \<open>None\<close> when the field is missing.
\<close>

record conversation_state =
  lead_id :: string
  call_sid :: "string option"
  conversation_history :: "turn list"
  current_step :: string
  start_time :: string
  qualification_questions :: "string list"

text \<open>
  \<open>conversation_states\<close> is a Python dict: keys are unique and iteration follows insertion
  order, which \<open>handle_call_status\<close> depends on. It is an association list in insertion
  order, read with \<open>map_of\<close>.
\<close>

type_synonym store = "(string \<times> conversation_state) list"

text \<open>\<open>request.form\<close>, and the lead record returned by the CRM: dicts of strings.\<close>

type_synonym form = "(string \<times> string) list"

type_synonym lead_info = "(string \<times> string) list"

text \<open>\<open>d.get(key, default)\<close> on the result of the lookup.\<close>

definition get_or :: "'a \<Rightarrow> 'a option \<Rightarrow> 'a" where
  "get_or d v = (case v of None \<Rightarrow> d | Some x \<Rightarrow> x)"

text \<open>
  The dict returned by the decision function. \<open>is_final\<close> is the truth value of
  \<open>.get('is_final')\<close>; the other keys may be missing.
\<close>

record gpt_response =
  is_final :: bool
  qualification_result :: "string option"
  summary :: "string option"
  reason :: "string option"
  next_question :: "string option"

text \<open>
  Exceptions: a \<open>KeyError\<close> of the handler's own dict access, or whatever a collaborator
  raises, with its message.
\<close>

datatype py_exception = KeyError string | Raised string

text \<open>
  \<open>str(e)\<close>. For a \<open>KeyError\<close> it is the \<open>repr\<close> of the key, written here for a key
  without quotes or escapes.
\<close>

fun str_exception :: "py_exception \<Rightarrow> string" where
  "str_exception (KeyError k) = [CHR 0x27] @ k @ [CHR 0x27]"
| "str_exception (Raised m) = m"

text \<open>
  The TwiML document built on a \<open>VoiceResponse\<close>. Every \<open>say\<close> of the source uses
  \<open>voice='Polly.Aditi', language='hi-IN'\<close> and every \<open>gather\<close> uses
  \<open>input='speech', language='hi-IN', speech_timeout='auto', method='POST'\<close>; only the
  text, the action and the nesting vary.
\<close>

datatype verb = Say string | Gather string "verb list" | Hangup

text \<open>
  What a handler returns: \<open>Response(str(twiml), mimetype='text/xml')\<close>, the bare
  \<open>VoiceResponse\<close> object of \<open>_generate_error_response\<close>, or
  \<open>Response(body, status=code)\<close>.
\<close>

datatype reply =
    Response_xml "verb list"
  | Voice_response "verb list"
  | Response_status string nat

subsection \<open>Collaborators and their observable calls\<close>

text \<open>
  \<open>gpt.agent.GPTAgent\<close>, \<open>zoho.crm.ZohoCRM\<close> and \<open>utils.logger\<close> are imported by
  webhook.py and are not part of the modelled files. The CRM and the decision function are
  parameters of every handler: a call returns a value or raises. Following the
  specification's interface (\<open>decide(lead_id, utterance, state)\<close> returns a result; the
  dispatcher is the sole writer of the store), the decision function reads the state it is
  given and does not change it. The logger is taken not to raise.
\<close>

record collaborators =
  crm_get_lead_by_id :: "string \<Rightarrow> py_exception + lead_info option"
  crm_mark_lead_qualified :: "string \<Rightarrow> string \<Rightarrow> turn list \<Rightarrow> py_exception option"
  crm_mark_lead_disqualified :: "string \<Rightarrow> turn list \<Rightarrow> py_exception option"
  gpt_process_user_response ::
    "string \<Rightarrow> string \<Rightarrow> conversation_state \<Rightarrow> py_exception + gpt_response"
  gpt_process_final_qualification ::
    "string \<Rightarrow> conversation_state \<Rightarrow> py_exception + gpt_response"

text \<open>
  Every call to a collaborator is recorded with its arguments, in order, together with
  \<open>logger.error\<close> and \<open>logger.log_call_end\<close>; \<open>logger.info\<close> lines are not recorded.
  The CRM receives \<open>str(history)\<close>; the event keeps the history itself.
\<close>

datatype event =
    Crm_get_lead_by_id string
  | Crm_mark_lead_qualified string string "turn list"
  | Crm_mark_lead_disqualified string "turn list"
  | Gpt_process_user_response string string conversation_state
  | Gpt_process_final_qualification string conversation_state
  | Log_error string
  | Log_call_end string string

text \<open>The state of the process: the module-level dict and the calls made so far.\<close>

record world =
  conversation_states :: store
  trace :: "event list"

definition emit :: "event \<Rightarrow> world \<Rightarrow> world" where
  "emit ev w = w\<lparr>trace := trace w @ [ev]\<rparr>"

subsection \<open>Response builders\<close>

text \<open>
  \<open>str.isspace\<close> for a code point below 256, and \<open>str.strip()\<close> with no argument.
\<close>

definition isspace :: "char \<Rightarrow> bool" where
  "isspace c =
     (let n = (of_char c :: nat)
      in (9 \<le> n \<and> n \<le> 13) \<or> (28 \<le> n \<and> n \<le> 32) \<or> n = 133 \<or> n = 160)"

definition strip :: "string \<Rightarrow> string" where
  "strip s = rev (dropWhile isspace (rev (dropWhile isspace s)))"

text \<open>\<open>_generate_error_response\<close>\<close>

definition generate_error_response :: "string \<Rightarrow> verb list" where
  "generate_error_response error_message =
     [Say (''Sorry, '' @ error_message @ ''. Please try again later.''), Hangup]"

text \<open>\<open>_generate_voice_response\<close>; \<open>company\<close> is read and not used.\<close>

definition generate_voice_response :: "string \<Rightarrow> lead_info \<Rightarrow> verb list" where
  "generate_voice_response lid info =
     (let first_name = get_or '''' (map_of info ''First_Name'');
          last_name = get_or '''' (map_of info ''Last_Name'');
          stripped = strip (first_name @ '' '' @ last_name);
          lead_name = (if stripped = [] then ''Sir/Madam'' else stripped);
          greeting = ''Namaste '' @ lead_name
            @ ''! Main aapko call kar raha hoon. Kya aap mujhe 2 minute de sakte hain?''
      in [Say greeting,
          Gather (''/twilio/gather?lead_id='' @ lid) [Say ''Aap kuch bol sakte hain?''],
          Say ''Thank you for your time. Goodbye!'',
          Hangup])"

text \<open>
  The terminal CRM write shared by both paths: the call is recorded, then it returns or
  raises.
\<close>

definition crm_write ::
  "collaborators \<Rightarrow> string \<Rightarrow> gpt_response \<Rightarrow> turn list \<Rightarrow> world
    \<Rightarrow> py_exception option \<times> world" where
  "crm_write env lid resp history w =
     (if get_or ''unknown'' (qualification_result resp) = ''qualified''
      then (crm_mark_lead_qualified env lid (get_or '''' (summary resp)) history,
            emit (Crm_mark_lead_qualified lid (get_or '''' (summary resp)) history) w)
      else (crm_mark_lead_disqualified env (get_or ''No specific reason'' (reason resp)) history,
            emit (Crm_mark_lead_disqualified
                    (get_or ''No specific reason'' (reason resp)) history) w))"

text \<open>
  \<open>_generate_follow_up_response\<close>. In the final branch
  \<open>conversation_states[lead_id]\<close> raises \<open>KeyError\<close> for a missing key, before the CRM is
  called. The branch neither changes \<open>current_step\<close> nor deletes the entry.
\<close>

definition generate_follow_up_response ::
  "collaborators \<Rightarrow> string \<Rightarrow> gpt_response \<Rightarrow> world \<Rightarrow> (py_exception + verb list) \<times> world" where
  "generate_follow_up_response env lid resp w =
     (if is_final resp then
        (let qr = get_or ''unknown'' (qualification_result resp);
             msg = (if qr = ''qualified''
                    then ''Bahut achha! Aap qualify ho gaye hain. Hamara team aapko contact karega. Thank you!''
                    else ''Thank you for your time. Hamara team aapko future mein contact kar sakta hai. Goodbye!'')
         in case map_of (conversation_states w) lid of
              None \<Rightarrow> (Inl (KeyError lid), w)
            | Some st \<Rightarrow>
                (case crm_write env lid resp (conversation_history st) w of
                   (Some e, w1) \<Rightarrow> (Inl e, w1)
                 | (None, w1) \<Rightarrow> (Inr [Say msg, Hangup], emit (Log_call_end lid qr) w1)))
      else
        (Inr [Say (get_or ''Kya aap mujhe aur detail de sakte hain?'' (next_question resp)),
              Gather (''/twilio/gather?lead_id='' @ lid) [Say ''Aap kuch bol sakte hain?''],
              Say ''Thank you for your time. Goodbye!'',
              Hangup], w))"

subsection \<open>Handlers\<close>

text \<open>The entry created by \<open>handle_voice_webhook\<close>; \<open>now\<close> is \<open>datetime.now().isoformat()\<close>.\<close>

definition new_state :: "string \<Rightarrow> string option \<Rightarrow> string \<Rightarrow> conversation_state" where
  "new_state lid csid now =
     \<lparr>lead_id = lid, call_sid = csid, conversation_history = [], current_step = ''greeting'',
      start_time = now, qualification_questions = []\<rparr>"

text \<open>
  \<open>handle_voice_webhook\<close>; \<open>lid\<close> is the path segment of the route. The entry is created
  before the CRM is asked. \<open>not lead_info\<close> holds for \<open>None\<close> and for an empty dict.
\<close>

definition handle_voice_webhook ::
  "collaborators \<Rightarrow> string \<Rightarrow> string \<Rightarrow> form \<Rightarrow> world \<Rightarrow> reply \<times> world" where
  "handle_voice_webhook env now lid frm w =
     (let csid = map_of frm ''CallSid'';
          w1 = (if map_of (conversation_states w) lid = None
                then w\<lparr>conversation_states := conversation_states w @ [(lid, new_state lid csid now)]\<rparr>
                else w);
          w2 = emit (Crm_get_lead_by_id lid) w1
      in case crm_get_lead_by_id env lid of
           Inl e \<Rightarrow>
             (Voice_response (generate_error_response ''Error fetching lead information''),
              emit (Log_error (''Error fetching lead '' @ lid @ '': '' @ str_exception e)) w2)
         | Inr None \<Rightarrow>
             (Voice_response (generate_error_response ''Lead information not found''),
              emit (Log_error (''Lead '' @ lid @ '' not found in Zoho CRM'')) w2)
         | Inr (Some info) \<Rightarrow>
             if info = []
             then (Voice_response (generate_error_response ''Lead information not found''),
                   emit (Log_error (''Lead '' @ lid @ '' not found in Zoho CRM'')) w2)
             else (Response_xml (generate_voice_response lid info), w2))"

text \<open>The dict appended to the history by \<open>handle_gather\<close>.\<close>

definition user_turn :: "string \<Rightarrow> form \<Rightarrow> turn" where
  "user_turn now frm =
     \<lparr>speaker = ''user'', message = get_or '''' (map_of frm ''SpeechResult''),
      confidence = get_or ''0'' (map_of frm ''Confidence''), timestamp = now\<rparr>"

text \<open>In-place change of the value stored under a key; the key keeps its position.\<close>

definition store_put :: "string \<Rightarrow> conversation_state \<Rightarrow> store \<Rightarrow> store" where
  "store_put lid st s = map (\<lambda>(k, v). if k = lid then (k, st) else (k, v)) s"

text \<open>
  \<open>handle_gather\<close>; \<open>frm\<close> is \<open>request.form\<close>, the fields of the POST body. The
  parameters of the URL's query string are in \<open>request.args\<close>, which the handler does not
  read. \<open>not lead_id\<close> holds for a missing field and for the empty string.
  Whatever is raised after the append is caught by the handler's \<open>except\<close>.
\<close>

definition handle_gather ::
  "collaborators \<Rightarrow> string \<Rightarrow> form \<Rightarrow> world \<Rightarrow> reply \<times> world" where
  "handle_gather env now frm w =
     (case map_of frm ''lead_id'' of
        None \<Rightarrow> (Voice_response (generate_error_response ''Invalid lead ID''), w)
      | Some lid \<Rightarrow>
          if lid = [] then (Voice_response (generate_error_response ''Invalid lead ID''), w)
          else
            (case map_of (conversation_states w) lid of
               None \<Rightarrow> (Voice_response (generate_error_response ''Invalid lead ID''), w)
             | Some st \<Rightarrow>
                 (let speech_result = get_or '''' (map_of frm ''SpeechResult'');
                      st1 = st\<lparr>conversation_history :=
                                 conversation_history st @ [user_turn now frm]\<rparr>;
                      w1 = w\<lparr>conversation_states := store_put lid st1 (conversation_states w)\<rparr>;
                      w2 = emit (Gpt_process_user_response lid speech_result st1) w1
                  in case gpt_process_user_response env lid speech_result st1 of
                       Inl e \<Rightarrow>
                         (Voice_response (generate_error_response ''An error occurred''),
                          emit (Log_error (''Error handling gather input: '' @ str_exception e)) w2)
                     | Inr next_response \<Rightarrow>
                         (case generate_follow_up_response env lid next_response w2 of
                            (Inl e, w3) \<Rightarrow>
                              (Voice_response (generate_error_response ''An error occurred''),
                               emit (Log_error (''Error handling gather input: ''
                                                @ str_exception e)) w3)
                          | (Inr twiml, w3) \<Rightarrow> (Response_xml twiml, w3)))))"

text \<open>
  \<open>_process_final_qualification\<close>. The entry is deleted only at the end of the branch in
  which the decision is final and the CRM write returned; the \<open>except\<close> clause logs and
  deletes nothing.
\<close>

definition process_final_qualification :: "collaborators \<Rightarrow> string \<Rightarrow> world \<Rightarrow> world" where
  "process_final_qualification env lid w =
     (case map_of (conversation_states w) lid of
        None \<Rightarrow> w
      | Some st \<Rightarrow>
          if current_step st \<noteq> ''completed'' then
            (let w1 = emit (Gpt_process_final_qualification lid st) w
             in case gpt_process_final_qualification env lid st of
                  Inl e \<Rightarrow>
                    emit (Log_error (''Error processing final qualification for Lead '' @ lid
                                     @ '': '' @ str_exception e)) w1
                | Inr final_response \<Rightarrow>
                    if is_final final_response then
                      (case crm_write env lid final_response (conversation_history st) w1 of
                         (Some e, w2) \<Rightarrow>
                           emit (Log_error (''Error processing final qualification for Lead ''
                                            @ lid @ '': '' @ str_exception e)) w2
                       | (None, w2) \<Rightarrow>
                           (emit (Log_call_end lid
                                    (get_or ''unknown'' (qualification_result final_response))) w2)
                             \<lparr>conversation_states :=
                                filter (\<lambda>(k, v). k \<noteq> lid) (conversation_states w2)\<rparr>)
                    else w1)
          else w)"

text \<open>
  The loop of \<open>handle_call_status\<close>: the first key, in insertion order, whose entry has
  the given \<open>call_sid\<close>.
\<close>

definition lead_of_call :: "string option \<Rightarrow> store \<Rightarrow> string option" where
  "lead_of_call csid s = map_option fst (find (\<lambda>(k, v). call_sid v = csid) s)"

text \<open>\<open>handle_call_status\<close>; a lead id that is \<open>None\<close> or empty is falsy.\<close>

definition handle_call_status :: "collaborators \<Rightarrow> form \<Rightarrow> world \<Rightarrow> reply \<times> world" where
  "handle_call_status env frm w =
     (case lead_of_call (map_of frm ''CallSid'') (conversation_states w) of
        None \<Rightarrow> (Response_status ''OK'' 200, w)
      | Some lid \<Rightarrow>
          if lid \<noteq> [] \<and> map_of frm ''CallStatus'' = Some ''completed''
          then (Response_status ''OK'' 200, process_final_qualification env lid w)
          else (Response_status ''OK'' 200, w))"

text \<open>\<open>handle_recording\<close> only logs.\<close>

definition handle_recording :: "form \<Rightarrow> world \<Rightarrow> reply \<times> world" where
  "handle_recording frm w = (Response_status ''OK'' 200, w)"

subsection \<open>Sequences of callbacks\<close>

text \<open>
  A callback as the provider sends it. Each one comes with the behaviour of the
  collaborators during that request and the clock reading of that request.
\<close>

datatype callback =
    Voice_callback string form
  | Gather_callback form
  | Status_callback form
  | Recording_callback form

fun dispatch :: "collaborators \<Rightarrow> string \<Rightarrow> callback \<Rightarrow> world \<Rightarrow> reply \<times> world" where
  "dispatch env now (Voice_callback lid frm) w = handle_voice_webhook env now lid frm w"
| "dispatch env now (Gather_callback frm) w = handle_gather env now frm w"
| "dispatch env now (Status_callback frm) w = handle_call_status env frm w"
| "dispatch env now (Recording_callback frm) w = handle_recording frm w"

fun run :: "(collaborators \<times> string \<times> callback) list \<Rightarrow> world \<Rightarrow> world" where
  "run [] w = w"
| "run ((env, now, cb) # rest) w = run rest (snd (dispatch env now cb w))"

text \<open>The terminal CRM writes and the decision calls recorded in a trace.\<close>

fun terminal_write :: "event \<Rightarrow> bool" where
  "terminal_write (Crm_mark_lead_qualified l s h) = True"
| "terminal_write (Crm_mark_lead_disqualified r h) = True"
| "terminal_write ev = False"

fun decide_calls :: "event list \<Rightarrow> (string \<times> string \<times> conversation_state) list" where
  "decide_calls [] = []"
| "decide_calls (Gpt_process_user_response lid u st # evs) = (lid, u, st) # decide_calls evs"
| "decide_calls (ev # evs) = decide_calls evs"

subsection \<open>Concrete collaborators and requests\<close>

text \<open>
  A lead \<open>L1\<close> known to the CRM, a decision function that returns a final ``qualified''
  verdict, and the three callbacks of one call.
\<close>

definition example_lead :: lead_info where
  "example_lead = [(''First_Name'', ''Asha''), (''Last_Name'', ''Rao''), (''Company'', ''Acme'')]"

definition qualified_verdict :: gpt_response where
  "qualified_verdict =
     \<lparr>is_final = True, qualification_result = Some ''qualified'',
      summary = Some ''interested'', reason = None, next_question = None\<rparr>"

definition budget_question :: gpt_response where
  "budget_question =
     \<lparr>is_final = False, qualification_result = None, summary = None, reason = None,
      next_question = Some ''What is your budget?''\<rparr>"

definition agreeable :: collaborators where
  "agreeable =
     \<lparr>crm_get_lead_by_id = (\<lambda>lid. Inr (Some example_lead)),
      crm_mark_lead_qualified = (\<lambda>lid s h. None),
      crm_mark_lead_disqualified = (\<lambda>r h. None),
      gpt_process_user_response = (\<lambda>lid u st. Inr qualified_verdict),
      gpt_process_final_qualification = (\<lambda>lid st. Inr qualified_verdict)\<rparr>"

text \<open>The same with a CRM that has no record, a conversation that goes on, a decision
  function that raises on the fallback path.\<close>

definition crm_without_lead :: collaborators where
  "crm_without_lead = agreeable\<lparr>crm_get_lead_by_id := (\<lambda>lid. Inr None)\<rparr>"

definition conversing :: collaborators where
  "conversing = agreeable\<lparr>gpt_process_user_response := (\<lambda>lid u st. Inr budget_question)\<rparr>"

definition decision_down :: collaborators where
  "decision_down =
     agreeable\<lparr>gpt_process_final_qualification := (\<lambda>lid st. Inl (Raised ''timeout''))\<rparr>"

definition empty_world :: world where
  "empty_world = \<lparr>conversation_states = [], trace = []\<rparr>"

definition voice_form :: form where
  "voice_form = [(''CallSid'', ''CA1''), (''From'', ''+15005550006''), (''To'', ''+919991234567'')]"

definition gather_form :: form where
  "gather_form =
     [(''lead_id'', ''L1''), (''SpeechResult'', ''yes interested''), (''Confidence'', ''0.9'')]"

definition second_gather_form :: form where
  "second_gather_form =
     [(''lead_id'', ''L1''), (''SpeechResult'', ''two lakh''), (''Confidence'', ''0.8'')]"

definition status_form :: form where
  "status_form = [(''CallSid'', ''CA1''), (''CallStatus'', ''completed''), (''CallDuration'', ''42'')]"

text \<open>The store after the voice callback of \<open>L1\<close> on call \<open>CA1\<close>.\<close>

definition world_L1 :: world where
  "world_L1 = \<lparr>conversation_states = [(''L1'', new_state ''L1'' (Some ''CA1'') ''t0'')], trace = []\<rparr>"

subsection \<open>Conditions on a request\<close>

text \<open>
  The CRM lookup of \<open>handle_voice_webhook\<close> does not resolve the lead: it raises, or returns
  \<open>None\<close> or an empty record.
\<close>

definition lead_unresolved :: "collaborators \<Rightarrow> string \<Rightarrow> bool" where
  "lead_unresolved env lid =
     (case crm_get_lead_by_id env lid of
        Inl e \<Rightarrow> True
      | Inr None \<Rightarrow> True
      | Inr (Some info) \<Rightarrow> info = [])"

text \<open>
  What is raised inside \<open>_process_final_qualification\<close> for an entry \<open>st\<close>, if anything:
  by the decision function, or by the CRM write that follows a final verdict.
\<close>

definition fallback_failure ::
  "collaborators \<Rightarrow> string \<Rightarrow> conversation_state \<Rightarrow> py_exception option" where
  "fallback_failure env lid st =
     (case gpt_process_final_qualification env lid st of
        Inl e \<Rightarrow> Some e
      | Inr r \<Rightarrow>
          if is_final r then
            (if get_or ''unknown'' (qualification_result r) = ''qualified''
             then crm_mark_lead_qualified env lid (get_or '''' (summary r)) (conversation_history st)
             else crm_mark_lead_disqualified env (get_or ''No specific reason'' (reason r))
                    (conversation_history st))
          else None)"

text \<open>
  The gather callback as the provider sends it for the \<open>Gather\<close> verb the handlers build.
  The verb's action is \<open>/twilio/gather?lead_id=L1\<close> with method POST: the request goes to
  that URL, so \<open>lead_id\<close> is a parameter of the query string (\<open>request.args\<close>), and the
  POST body, which is what \<open>request.form\<close> holds, carries the provider's own fields.
\<close>

definition provider_gather_form :: form where
  "provider_gather_form =
     [(''CallSid'', ''CA1''), (''SpeechResult'', ''yes interested''), (''Confidence'', ''0.9'')]"

definition second_provider_gather_form :: form where
  "second_provider_gather_form =
     [(''CallSid'', ''CA1''), (''SpeechResult'', ''two lakh''), (''Confidence'', ''0.8'')]"

section \<open>Properties of the phone number formatting\<close>

lemma startswith_plus_iff: "startswith s ''+'' \<longleftrightarrow> (\<exists>r. s = CHR ''+'' # r)"
  by (cases s) (auto simp: startswith_def)

lemma isdigit_prefix_chars: "isdigit CHR ''9''" "isdigit CHR ''2''" "isdigit CHR ''1''"
  by (simp_all add: isdigit_def decimal_digit_def)

lemma format_phone_number_chars:
  "list_all (\<lambda>c. isdigit c \<or> c = CHR ''+'') (format_phone_number x)"
  by (auto simp: format_phone_number_def Let_def list_all_iff isdigit_prefix_chars
      dest: in_set_dropD)

lemma format_phone_number_plus: "startswith (format_phone_number x) ''+''"
  by (simp add: format_phone_number_def Let_def startswith_def)

lemma filter_all_same: "list_all P xs \<Longrightarrow> filter P xs = xs"
  by (induction xs) auto

lemma format_phone_number_indian: "format_phone_number ''9991234567'' = ''+919991234567''"
  by (simp add: format_phone_number_def isdigit_def decimal_digit_def startswith_def)

lemma format_phone_number_pakistani: "format_phone_number ''03001234567'' = ''+923001234567''"
  by (simp add: format_phone_number_def isdigit_def decimal_digit_def startswith_def)

lemma format_phone_number_canonical: "format_phone_number ''+14155551234'' = ''+14155551234''"
  by (simp add: format_phone_number_def isdigit_def decimal_digit_def startswith_def)

text \<open>On an input of the stated shape the code and the specification keep the same characters.\<close>

lemma phone_input_filter:
  assumes "phone_input s"
  shows "filter (\<lambda>c. isdigit c \<or> c = CHR ''+'') s
       = filter (\<lambda>c. decimal_digit c \<or> c = CHR ''+'') s"
proof (rule filter_cong [OF refl])
  fix c assume "c \<in> set s"
  with assms have "decimal_digit c \<or> c = CHR '' '' \<or> c = CHR ''+''"
    by (cases s) (auto simp: phone_input_def list_all_iff startswith_def split: if_splits)
  then show "(isdigit c \<or> c = CHR ''+'') = (decimal_digit c \<or> c = CHR ''+'')"
    by (auto simp: isdigit_def)
qed

text \<open>Without a leading plus, what is kept is decimal digits only, so its length counts digits.\<close>

lemma phone_input_cleaned:
  assumes "phone_input s"
    and "\<not> startswith (filter (\<lambda>c. decimal_digit c \<or> c = CHR ''+'') s) ''+''"
  shows "list_all decimal_digit (filter (\<lambda>c. decimal_digit c \<or> c = CHR ''+'') s)"
  using assms
  by (cases s) (auto simp: phone_input_def list_all_iff startswith_def split: if_splits)

lemma format_phone_number_eq_spec:
  "phone_input s \<Longrightarrow> format_phone_number s = normalize_spec s"
  using phone_input_cleaned [of s]
  by (auto simp: format_phone_number_def normalize_spec_def Let_def phone_input_filter
      n_digits_def drop_Suc)

text \<open>
  C6. On every input made of digits and spaces with an optional leading plus,
  \<open>_format_phone_number\<close> returns what the seven ordered first-match rules of the
  specification return; it maps \<open>9991234567\<close> to \<open>+919991234567\<close>, \<open>03001234567\<close> to
  \<open>+923001234567\<close> and \<open>+14155551234\<close> to itself. The function is total with a string as its
  value: the body has no operation that raises on a string.
\<close>

theorem format_phone_number_follows_rules:
  "(phone_input s \<longrightarrow> format_phone_number s = normalize_spec s)
   \<and> format_phone_number ''9991234567'' = ''+919991234567''
   \<and> format_phone_number ''03001234567'' = ''+923001234567''
   \<and> format_phone_number ''+14155551234'' = ''+14155551234''"
  by (simp add: format_phone_number_eq_spec format_phone_number_indian
      format_phone_number_pakistani format_phone_number_canonical)

theorem format_phone_number_follows_rules_witness:
  "phone_input ''0300 1234567''
   \<and> format_phone_number ''0300 1234567'' = normalize_spec ''0300 1234567''"
proof -
  have h: "phone_input ''0300 1234567''"
    by (simp add: phone_input_def startswith_def decimal_digit_def)
  from format_phone_number_follows_rules [of "''0300 1234567''"] h show ?thesis
    by blast
qed

text \<open>
  C7. \<open>_format_phone_number\<close> is idempotent on every string: its result starts with a plus
  and holds only characters the cleaning step keeps, so a second application returns it
  unchanged.
\<close>

theorem format_phone_number_idempotent:
  "format_phone_number (format_phone_number x) = format_phone_number x"
proof -
  let ?y = "format_phone_number x"
  have "filter (\<lambda>c. isdigit c \<or> c = CHR ''+'') ?y = ?y"
    using format_phone_number_chars [of x] by (rule filter_all_same)
  moreover have "startswith ?y ''+''"
    by (rule format_phone_number_plus)
  ultimately show ?thesis
    unfolding format_phone_number_def [of ?y] by (simp add: Let_def)
qed

section \<open>Properties of the webhook dispatcher\<close>

subsection \<open>What each step leaves alone\<close>

lemma emit_states [simp]: "conversation_states (emit ev w) = conversation_states w"
  by (simp add: emit_def)

lemma emit_trace [simp]: "trace (emit ev w) = trace w @ [ev]"
  by (simp add: emit_def)

lemma crm_write_states [simp]:
  "conversation_states (snd (crm_write env lid resp h w)) = conversation_states w"
  by (simp add: crm_write_def)

lemma decide_calls_append: "decide_calls (xs @ ys) = decide_calls xs @ decide_calls ys"
  by (induction xs rule: decide_calls.induct) simp_all

lemma crm_write_decide [simp]:
  "decide_calls (trace (snd (crm_write env lid resp h w))) = decide_calls (trace w)"
  by (simp add: crm_write_def decide_calls_append)

lemma follow_up_states [simp]:
  "conversation_states (snd (generate_follow_up_response env lid resp w)) = conversation_states w"
  unfolding generate_follow_up_response_def Let_def
  by (auto split: option.splits prod.splits
      dest: arg_cong [where f = "\<lambda>p. conversation_states (snd p)"])


lemma handle_gather_known_states:
  assumes "map_of frm ''lead_id'' = Some lid" and "lid \<noteq> []"
    and "map_of (conversation_states w) lid = Some st"
  shows "conversation_states (snd (handle_gather env now frm w))
       = store_put lid (st\<lparr>conversation_history := conversation_history st @ [user_turn now frm]\<rparr>)
           (conversation_states w)"
proof -
  let ?st1 = "st\<lparr>conversation_history := conversation_history st @ [user_turn now frm]\<rparr>"
  let ?u = "get_or '''' (map_of frm ''SpeechResult'')"
  let ?w2 = "emit (Gpt_process_user_response lid ?u ?st1)
               (w\<lparr>conversation_states := store_put lid ?st1 (conversation_states w)\<rparr>)"
  show ?thesis
  proof (cases "gpt_process_user_response env lid ?u ?st1")
    case (Inl e)
    with assms show ?thesis by (simp add: handle_gather_def Let_def)
  next
    case (Inr resp)
    obtain r w3 where g: "generate_follow_up_response env lid resp ?w2 = (r, w3)"
      by (cases "generate_follow_up_response env lid resp ?w2")
    have "conversation_states w3 = store_put lid ?st1 (conversation_states w)"
      using follow_up_states [of env lid resp ?w2] g by simp
    with assms Inr g show ?thesis
      by (cases r) (simp_all add: handle_gather_def Let_def)
  qed
qed


lemma map_of_store_put_same:
  "map_of s lid = Some st0 \<Longrightarrow> map_of (store_put lid st s) lid = Some st"
  by (induction s) (auto simp: store_put_def split: if_splits)

lemma map_of_store_put_other:
  "k \<noteq> lid \<Longrightarrow> map_of (store_put lid st s) k = map_of s k"
  by (induction s) (auto simp: store_put_def)

lemma map_fst_store_put: "map fst (store_put lid st s) = map fst s"
  by (induction s) (auto simp: store_put_def)

lemma process_final_fails:
  assumes "map_of (conversation_states w) lid = Some st" and "current_step st \<noteq> ''completed''"
    and "fallback_failure env lid st = Some e"
  shows "conversation_states (process_final_qualification env lid w) = conversation_states w
     \<and> last (trace (process_final_qualification env lid w))
         = Log_error (''Error processing final qualification for Lead '' @ lid @ '': ''
                      @ str_exception e)"
  using assms
  by (auto simp: process_final_qualification_def fallback_failure_def crm_write_def Let_def
      split: sum.splits option.splits if_splits)

text \<open>
  The fallback path, when nothing raises and the verdict is final, removes the entry.
\<close>

lemma map_of_deleted: "map_of (filter (\<lambda>(k, v). k \<noteq> lid) s) lid = None"
  by (induction s) auto

lemma fallback_success_removes_entry:
  assumes "map_of (conversation_states w) lid = Some st" and "current_step st \<noteq> ''completed''"
    and "gpt_process_final_qualification env lid st = Inr r" and "is_final r"
    and "fallback_failure env lid st = None"
  shows "map_of (conversation_states (process_final_qualification env lid w)) lid = None"
  using assms
  by (simp add: process_final_qualification_def fallback_failure_def crm_write_def Let_def
      map_of_deleted split: if_splits)

lemmas scenario_defs = example_lead_def qualified_verdict_def budget_question_def agreeable_def
  crm_without_lead_def conversing_def decision_down_def empty_world_def voice_form_def
  gather_form_def second_gather_form_def status_form_def world_L1_def

lemmas handler_defs = handle_voice_webhook_def handle_gather_def handle_call_status_def
  process_final_qualification_def generate_follow_up_response_def crm_write_def emit_def
  new_state_def store_put_def user_turn_def get_or_def lead_of_call_def
  generate_error_response_def Let_def

subsection \<open>Terminal writes and the removal of the entry\<close>

text \<open>
  C1 (fails on the code). The claim is that a lead sees at most one terminal CRM write.
  For lead \<open>L1\<close> on call \<open>CA1\<close>: the voice callback, a gather callback whose decision is
  final and ``qualified'', then the status callback reporting \<open>completed\<close>. The gather
  path writes and leaves the entry in the store with \<open>current_step = 'greeting'\<close>, so the
  guard of \<open>_process_final_qualification\<close> lets the fallback write again:
  \<open>mark_lead_qualified\<close> is called twice for \<open>L1\<close>.
\<close>

theorem final_gather_then_status_writes_twice:
  "filter terminal_write (trace (run
     [(agreeable, ''t0'', Voice_callback ''L1'' voice_form),
      (agreeable, ''t1'', Gather_callback gather_form),
      (agreeable, ''t2'', Status_callback status_form)] empty_world))
   = [Crm_mark_lead_qualified ''L1'' ''interested'' [user_turn ''t1'' gather_form],
      Crm_mark_lead_qualified ''L1'' ''interested'' [user_turn ''t1'' gather_form]]"
  by (simp add: scenario_defs handler_defs)

text \<open>
  C2 (fails on the code). The claim is that the entry is absent after a terminal
  transition. After a gather callback whose decision has \<open>is_final\<close> true, the entry of
  \<open>L1\<close> is still in the store, with the new turn appended and its step unchanged.
\<close>

theorem final_gather_keeps_entry:
  "gpt_process_user_response agreeable ''L1'' ''yes interested''
       ((new_state ''L1'' (Some ''CA1'') ''t0'')
          \<lparr>conversation_history := [user_turn ''t1'' gather_form]\<rparr>) = Inr qualified_verdict
   \<and> is_final qualified_verdict
   \<and> map_of (conversation_states (snd (handle_gather agreeable ''t1'' gather_form world_L1))) ''L1''
       = Some ((new_state ''L1'' (Some ''CA1'') ''t0'')
                 \<lparr>conversation_history := [user_turn ''t1'' gather_form]\<rparr>)"
  by (simp add: scenario_defs handler_defs)

subsection \<open>Unresolvable and unknown leads\<close>

text \<open>
  C3 as stated fails: with an empty store and a CRM that has no record of \<open>L1\<close>, the voice
  callback answers with the spoken error and the store then holds a fresh entry for \<open>L1\<close>.
\<close>

theorem unresolved_lead_creates_entry:
  "lead_unresolved crm_without_lead ''L1''
   \<and> map_of (conversation_states empty_world) ''L1'' = None
   \<and> fst (handle_voice_webhook crm_without_lead ''t0'' ''L1'' voice_form empty_world)
       = Voice_response [Say ''Sorry, Lead information not found. Please try again later.'', Hangup]
   \<and> map_of (conversation_states
               (snd (handle_voice_webhook crm_without_lead ''t0'' ''L1'' voice_form empty_world)))
         ''L1''
       = Some (new_state ''L1'' (Some ''CA1'') ''t0'')"
  by (simp add: lead_unresolved_def scenario_defs handler_defs)

text \<open>
  C3, amended. When the CRM lookup of a voice callback raises or returns no record, the
  handler returns the spoken error response ending in a hangup, and the store is the one
  that the initialization step left: unchanged when the lead already had an entry,
  otherwise extended by a fresh entry for the lead (step \<open>greeting\<close>, the callback's
  \<open>CallSid\<close>, empty history).
\<close>

theorem unresolved_lead_error_response:
  "lead_unresolved env lid
   \<Longrightarrow> fst (handle_voice_webhook env now lid frm w)
         = Voice_response (generate_error_response
             (case crm_get_lead_by_id env lid of
                Inl e \<Rightarrow> ''Error fetching lead information''
              | Inr r \<Rightarrow> ''Lead information not found''))
     \<and> conversation_states (snd (handle_voice_webhook env now lid frm w))
         = (if map_of (conversation_states w) lid = None
            then conversation_states w @ [(lid, new_state lid (map_of frm ''CallSid'') now)]
            else conversation_states w)"
  by (auto simp: lead_unresolved_def handle_voice_webhook_def Let_def
      split: sum.splits option.splits)

theorem unresolved_lead_error_response_witness:
  "lead_unresolved crm_without_lead ''L2''
   \<and> fst (handle_voice_webhook crm_without_lead ''t3'' ''L2'' voice_form world_L1)
       = Voice_response [Say ''Sorry, Lead information not found. Please try again later.'', Hangup]
   \<and> conversation_states (snd (handle_voice_webhook crm_without_lead ''t3'' ''L2'' voice_form world_L1))
       = [(''L1'', new_state ''L1'' (Some ''CA1'') ''t0''),
          (''L2'', new_state ''L2'' (Some ''CA1'') ''t3'')]"
proof -
  have h: "lead_unresolved crm_without_lead ''L2''"
    by (simp add: lead_unresolved_def scenario_defs)
  from unresolved_lead_error_response [OF h, of "''t3''" voice_form world_L1] h show ?thesis
    by (simp add: scenario_defs generate_error_response_def)
qed

text \<open>
  C4. A gather callback whose \<open>lead_id\<close> field is missing, or is not a key of the store,
  returns the error response and leaves the whole state, store included, as it was.
\<close>

theorem gather_unknown_lead:
  "map_of frm ''lead_id'' = None
   \<or> (\<exists>lid. map_of frm ''lead_id'' = Some lid \<and> map_of (conversation_states w) lid = None)
   \<Longrightarrow> handle_gather env now frm w
       = (Voice_response (generate_error_response ''Invalid lead ID''), w)"
  by (auto simp: handle_gather_def)

theorem gather_unknown_lead_witness:
  "map_of gather_form ''lead_id'' = Some ''L1''
   \<and> map_of (conversation_states empty_world) ''L1'' = None
   \<and> handle_gather agreeable ''t1'' gather_form empty_world
       = (Voice_response [Say ''Sorry, Invalid lead ID. Please try again later.'', Hangup],
          empty_world)"
proof -
  have h: "map_of gather_form ''lead_id'' = Some ''L1''
           \<and> map_of (conversation_states empty_world) ''L1'' = None"
    by (simp add: gather_form_def empty_world_def)
  then have "map_of gather_form ''lead_id'' = None
             \<or> (\<exists>lid. map_of gather_form ''lead_id'' = Some lid
                     \<and> map_of (conversation_states empty_world) lid = None)"
    by blast
  from gather_unknown_lead [OF this, of agreeable "''t1''"] h show ?thesis
    by (simp add: generate_error_response_def)
qed

subsection \<open>Failure on the status-completed fallback path\<close>

text \<open>
  C5 as stated fails: when the decision function raises on the fallback path, the status
  callback is answered \<open>OK\<close>, the error is logged, and the entry of \<open>L1\<close> is still in the
  store.
\<close>

theorem fallback_failure_keeps_entry:
  "fallback_failure decision_down ''L1'' (new_state ''L1'' (Some ''CA1'') ''t0'')
       = Some (Raised ''timeout'')
   \<and> handle_call_status decision_down status_form world_L1
       = (Response_status ''OK'' 200,
          \<lparr>conversation_states = [(''L1'', new_state ''L1'' (Some ''CA1'') ''t0'')],
           trace = [Gpt_process_final_qualification ''L1'' (new_state ''L1'' (Some ''CA1'') ''t0''),
                    Log_error ''Error processing final qualification for Lead L1: timeout'']\<rparr>)
   \<and> map_of (conversation_states (snd (handle_call_status decision_down status_form world_L1)))
         ''L1'' \<noteq> None"
  by (simp add: fallback_failure_def scenario_defs handler_defs)

text \<open>
  C5, amended. When a status callback reports \<open>completed\<close> for the call of a lead whose
  entry is not marked completed, and the decision function or the CRM write raises during
  the final qualification, the handler answers \<open>OK\<close>, the failure is the last thing logged,
  and the store is unchanged: the lead's entry stays in it.
\<close>

theorem fallback_failure_logged_store_unchanged:
  "lead_of_call (map_of frm ''CallSid'') (conversation_states w) = Some lid
   \<Longrightarrow> lid \<noteq> []
   \<Longrightarrow> map_of frm ''CallStatus'' = Some ''completed''
   \<Longrightarrow> map_of (conversation_states w) lid = Some st
   \<Longrightarrow> current_step st \<noteq> ''completed''
   \<Longrightarrow> fallback_failure env lid st = Some e
   \<Longrightarrow> fst (handle_call_status env frm w) = Response_status ''OK'' 200
     \<and> conversation_states (snd (handle_call_status env frm w)) = conversation_states w
     \<and> last (trace (snd (handle_call_status env frm w)))
         = Log_error (''Error processing final qualification for Lead '' @ lid @ '': ''
                      @ str_exception e)"
  using process_final_fails [of w lid st env e]
  by (simp add: handle_call_status_def)

theorem fallback_failure_logged_store_unchanged_witness:
  "lead_of_call (map_of status_form ''CallSid'') (conversation_states world_L1) = Some ''L1''
   \<and> ''L1'' \<noteq> []
   \<and> map_of status_form ''CallStatus'' = Some ''completed''
   \<and> map_of (conversation_states world_L1) ''L1'' = Some (new_state ''L1'' (Some ''CA1'') ''t0'')
   \<and> current_step (new_state ''L1'' (Some ''CA1'') ''t0'') \<noteq> ''completed''
   \<and> fallback_failure decision_down ''L1'' (new_state ''L1'' (Some ''CA1'') ''t0'')
       = Some (Raised ''timeout'')
   \<and> fst (handle_call_status decision_down status_form world_L1) = Response_status ''OK'' 200
   \<and> conversation_states (snd (handle_call_status decision_down status_form world_L1))
       = conversation_states world_L1
   \<and> last (trace (snd (handle_call_status decision_down status_form world_L1)))
       = Log_error ''Error processing final qualification for Lead L1: timeout''"
proof -
  have h1: "lead_of_call (map_of status_form ''CallSid'') (conversation_states world_L1)
            = Some ''L1''"
    by (simp add: lead_of_call_def status_form_def world_L1_def new_state_def)
  have h2: "''L1'' \<noteq> []" by simp
  have h3: "map_of status_form ''CallStatus'' = Some ''completed''"
    by (simp add: status_form_def)
  have h4: "map_of (conversation_states world_L1) ''L1''
            = Some (new_state ''L1'' (Some ''CA1'') ''t0'')"
    by (simp add: world_L1_def)
  have h5: "current_step (new_state ''L1'' (Some ''CA1'') ''t0'') \<noteq> ''completed''"
    by (simp add: new_state_def)
  have h6: "fallback_failure decision_down ''L1'' (new_state ''L1'' (Some ''CA1'') ''t0'')
            = Some (Raised ''timeout'')"
    by (simp add: fallback_failure_def decision_down_def agreeable_def)
  from fallback_failure_logged_store_unchanged [OF h1 h2 h3 h4 h5 h6] h1 h2 h3 h4 h5 h6
  show ?thesis by simp
qed

subsection \<open>The history of turns\<close>

text \<open>
  When the POST body of a gather callback does carry the \<open>lead_id\<close> of a lead in the
  store, the append works as intended. After any number of such callbacks the lead's entry
  differs from the one before only in its history, which is the previous history followed
  by one user turn per callback, in arrival order, each holding the utterance, the
  confidence and the clock reading of its request; every other lead's entry is the one it
  was, and the keys keep their order.
\<close>

lemma map_of_store_put:
  "map_of s lid = Some st0 \<Longrightarrow> map_of (store_put lid st s) = (map_of s)(lid \<mapsto> st)"
  by (rule ext) (simp add: map_of_store_put_same map_of_store_put_other)

lemma gather_body_lead_id_appends:
  assumes "map_of (conversation_states w) lid = Some st" and "lid \<noteq> []"
    and "list_all (\<lambda>(env, now, frm). map_of frm ''lead_id'' = Some lid) reqs"
  shows "map_of (conversation_states
            (run (map (\<lambda>(env, now, frm). (env, now, Gather_callback frm)) reqs) w))
       = (map_of (conversation_states w))
           (lid \<mapsto> st\<lparr>conversation_history :=
              conversation_history st
              @ map (\<lambda>(env, now, frm).
                       \<lparr>speaker = ''user'', message = get_or '''' (map_of frm ''SpeechResult''),
                        confidence = get_or ''0'' (map_of frm ''Confidence''),
                        timestamp = now\<rparr>) reqs\<rparr>)
     \<and> map fst (conversation_states
            (run (map (\<lambda>(env, now, frm). (env, now, Gather_callback frm)) reqs) w))
       = map fst (conversation_states w)"
  using assms
proof (induction reqs arbitrary: w st)
  case Nil
  then show ?case by (auto simp: fun_upd_idem)
next
  case (Cons r reqs)
  obtain env now frm where r: "r = (env, now, frm)" by (cases r)
  let ?t = "\<lparr>speaker = ''user'', message = get_or '''' (map_of frm ''SpeechResult''),
             confidence = get_or ''0'' (map_of frm ''Confidence''), timestamp = now\<rparr>"
  let ?st1 = "st\<lparr>conversation_history := conversation_history st @ [?t]\<rparr>"
  let ?w1 = "snd (handle_gather env now frm w)"
  from Cons.prems r have frm: "map_of frm ''lead_id'' = Some lid" by simp
  have "conversation_states ?w1
      = store_put lid
          (st\<lparr>conversation_history := conversation_history st @ [user_turn now frm]\<rparr>)
          (conversation_states w)"
    using frm Cons.prems(2) Cons.prems(1) by (rule handle_gather_known_states)
  then have w1: "conversation_states ?w1 = store_put lid ?st1 (conversation_states w)"
    by (simp add: user_turn_def)
  then have m1: "map_of (conversation_states ?w1)
                 = (map_of (conversation_states w))(lid \<mapsto> ?st1)"
    using Cons.prems(1) by (simp add: map_of_store_put)
  then have l1: "map_of (conversation_states ?w1) lid = Some ?st1" by simp
  let ?rest = "map (\<lambda>(env, now, frm).
                       \<lparr>speaker = ''user'', message = get_or '''' (map_of frm ''SpeechResult''),
                        confidence = get_or ''0'' (map_of frm ''Confidence''),
                        timestamp = now\<rparr>) reqs"
  let ?end = "conversation_states
                (run (map (\<lambda>(env, now, frm). (env, now, Gather_callback frm)) reqs) ?w1)"
  from Cons.prems(3) r
  have rest: "list_all (\<lambda>(env, now, frm). map_of frm ''lead_id'' = Some lid) reqs" by simp
  note ih = Cons.IH [OF l1 Cons.prems(2) rest]
  have a: "map_of ?end = (map_of (conversation_states ?w1))
             (lid \<mapsto> ?st1\<lparr>conversation_history := conversation_history ?st1 @ ?rest\<rparr>)"
    using ih by (rule conjunct1)
  have b: "map fst ?end = map fst (conversation_states ?w1)"
    using ih by (rule conjunct2)
  have "map_of ?end = (map_of (conversation_states w))
          (lid \<mapsto> st\<lparr>conversation_history := conversation_history st @ ?t # ?rest\<rparr>)"
    unfolding a m1 by simp
  moreover have "map fst ?end = map fst (conversation_states w)"
    unfolding b w1 by (rule map_fst_store_put)
  ultimately show ?case
    unfolding r by simp
qed

text \<open>
  C8 (fails on the code). The claim is that every gather callback for a lead with an entry
  appends one user turn. The voice handler answers lead \<open>L1\<close> with a \<open>Gather\<close> verb whose
  action is \<open>/twilio/gather?lead_id=L1\<close>, so the callbacks that follow carry \<open>lead_id\<close> in
  the query string and not in the POST body. \<open>handle_gather\<close> reads \<open>request.form\<close> only:
  it finds no \<open>lead_id\<close>, answers ``Invalid lead ID'' and appends nothing. After two such
  callbacks with two utterances the history of \<open>L1\<close> is still empty.
\<close>

theorem provider_gather_callbacks_append_nothing:
  "fst (handle_voice_webhook agreeable ''t0'' ''L1'' voice_form empty_world)
     = Response_xml
         [Say ''Namaste Asha Rao! Main aapko call kar raha hoon. Kya aap mujhe 2 minute de sakte hain?'',
          Gather ''/twilio/gather?lead_id=L1'' [Say ''Aap kuch bol sakte hain?''],
          Say ''Thank you for your time. Goodbye!'',
          Hangup]
   \<and> conversation_states (snd (handle_voice_webhook agreeable ''t0'' ''L1'' voice_form empty_world))
     = conversation_states world_L1
   \<and> map_of provider_gather_form ''lead_id'' = None
   \<and> handle_gather conversing ''t1'' provider_gather_form world_L1
     = (Voice_response [Say ''Sorry, Invalid lead ID. Please try again later.'', Hangup], world_L1)
   \<and> conversation_states
        (run [(conversing, ''t1'', Gather_callback provider_gather_form),
              (conversing, ''t2'', Gather_callback second_provider_gather_form)] world_L1)
     = [(''L1'', \<lparr>lead_id = ''L1'', call_sid = Some ''CA1'', conversation_history = [],
                  current_step = ''greeting'', start_time = ''t0'',
                  qualification_questions = []\<rparr>)]"
  by (simp add: scenario_defs handler_defs provider_gather_form_def
      second_provider_gather_form_def generate_voice_response_def strip_def isspace_def)



subsection \<open>A second voice callback\<close>

text \<open>
  C10. A voice callback for a lead that already has an entry leaves the store as it was:
  the entry keeps its \<open>call_sid\<close>, history, step and start time, whatever \<open>CallSid\<close> the new
  request carries and whatever the CRM answers.
\<close>

theorem voice_callback_keeps_existing_entry:
  "map_of (conversation_states w) lid = Some st
   \<Longrightarrow> conversation_states (snd (handle_voice_webhook env now lid frm w)) = conversation_states w
     \<and> map_of (conversation_states (snd (handle_voice_webhook env now lid frm w))) lid = Some st"
  by (auto simp: handle_voice_webhook_def Let_def split: sum.splits option.splits)

theorem voice_callback_keeps_existing_entry_witness:
  "map_of (conversation_states world_L1) ''L1'' = Some (new_state ''L1'' (Some ''CA1'') ''t0'')
   \<and> map_of [(''CallSid'', ''CA2'')] ''CallSid'' = Some ''CA2''
   \<and> map_of (conversation_states
               (snd (handle_voice_webhook agreeable ''t5'' ''L1'' [(''CallSid'', ''CA2'')] world_L1)))
         ''L1''
       = Some \<lparr>lead_id = ''L1'', call_sid = Some ''CA1'', conversation_history = [],
               current_step = ''greeting'', start_time = ''t0'', qualification_questions = []\<rparr>"
proof -
  have h: "map_of (conversation_states world_L1) ''L1''
           = Some (new_state ''L1'' (Some ''CA1'') ''t0'')"
    by (simp add: world_L1_def)
  from voice_callback_keeps_existing_entry [OF h, of agreeable "''t5''" "[(''CallSid'', ''CA2'')]"] h
  show ?thesis by (simp add: new_state_def)
qed

end
